theory Spec2Isabelle
  imports Complex_Main
begin

section \<open>The scroll-driven visibility controller of AppFrame\<close>

text \<open>
  The source is \<^verbatim>\<open>src/components/AppFrame/index.tsx\<close>:
  \<^verbatim>\<open>
  const useScrollShower = (init?: boolean) => {
    const [isShow, changeShow] = useState(init ?? false)
    const fn = scrollInfoEvent(({ direction, diff }) => {
      if (diff > 14 && direction === 'up') {
        changeShow(true)
      } else if (diff > 14 && direction === 'down') {
        changeShow(false)
      }
    })

    useEffect(() => {
      addEventListener('scroll', fn)

      return () => removeEventListener('scroll', fn)
    }, [])

    return isShow
  }
  \<close>
  A JavaScript number is modelled as a \<^typ>\<open>real\<close>, an optional argument as an
  \<^typ>\<open>bool option\<close>, the React state cell and the listener registration as fields of
  a record that every operation takes and returns.
\<close>

subsection \<open>The payload of a scroll notification\<close>

text \<open>
  The callback destructures \<^verbatim>\<open>{ direction, diff }\<close> and compares the direction with
  the literals \<^verbatim>\<open>'up'\<close> and \<^verbatim>\<open>'down'\<close>. The declaration of the payload type lives in
  \<^verbatim>\<open>@/utils/scroll\<close>; the data model of the specification gives the direction the two
  values \<^verbatim>\<open>up | down\<close> and makes the magnitude a number.
\<close>

datatype direction = Up | Down

record scroll_info =
  direction :: direction
  diff :: real

subsection \<open>The callback handed to scrollInfoEvent\<close>

text \<open>
  \<^verbatim>\<open>changeShow(b)\<close> stores \<open>b\<close> in the state cell; a path that does not call it leaves
  the cell as it is. The function takes the payload and the current cell and returns the
  new cell.
\<close>

definition scroll_callback :: "scroll_info \<Rightarrow> bool \<Rightarrow> bool" where
  "scroll_callback info isShow =
     (if 14 < diff info \<and> direction info = Up then True
      else if 14 < diff info \<and> direction info = Down then False
      else isShow)"

subsection \<open>The state of one controller\<close>

text \<open>
  \<open>prev_pos\<close> is the previous position kept by the listener, \<open>isShow\<close> the React state
  cell, \<open>listening\<close> whether the listener is registered for \<^verbatim>\<open>'scroll'\<close> on the window.
\<close>

record controller =
  prev_pos :: real
  isShow :: bool
  listening :: bool

text \<open>\<^verbatim>\<open>init ?? false\<close>: the argument when one is given, \<^verbatim>\<open>false\<close> otherwise.\<close>

definition nullish_false :: "bool option \<Rightarrow> bool" where
  "nullish_false init = (case init of None \<Rightarrow> False | Some b \<Rightarrow> b)"

text \<open>
  The first render: \<^verbatim>\<open>useState(init ?? false)\<close> creates the cell, no effect has run
  yet. The position the listener starts from is not fixed by the source at hand and is
  the parameter \<open>p0\<close>.
\<close>

definition useScrollShower :: "bool option \<Rightarrow> real \<Rightarrow> controller" where
  "useScrollShower init p0 =
     \<lparr>prev_pos = p0, isShow = nullish_false init, listening = False\<rparr>"

subsection \<open>The producer of the payload\<close>

text \<open>
  Modelled from the spec: \<^verbatim>\<open>scrollInfoEvent\<close> of \<^verbatim>\<open>@/utils/scroll\<close>, which turns a
  callback on payloads into a scroll listener, is not among the sources. The
  specification says: the controller holds exactly one previous position; on each event
  the magnitude is the absolute difference of the current and the previous position, the
  direction is toward the top (\<^verbatim>\<open>up\<close>) when the position decreases and away from the top
  (\<^verbatim>\<open>down\<close>) when it increases; the stored previous position becomes the current one on
  every event, also on ignored ones. The specification does not say how an event that
  leaves the position where it was is classified: that direction is the parameter
  \<open>tie\<close>.
\<close>

definition scroll_direction :: "direction \<Rightarrow> real \<Rightarrow> real \<Rightarrow> direction" where
  "scroll_direction tie previous current =
     (if current < previous then Up else if previous < current then Down else tie)"

definition scroll_sample :: "direction \<Rightarrow> real \<Rightarrow> real \<Rightarrow> scroll_info" where
  "scroll_sample tie previous current =
     \<lparr>direction = scroll_direction tie previous current, diff = \<bar>current - previous\<bar>\<rparr>"

definition scrollInfoEvent ::
  "direction \<Rightarrow> (scroll_info \<Rightarrow> bool \<Rightarrow> bool) \<Rightarrow> 'a controller_scheme \<Rightarrow> real \<Rightarrow> 'a controller_scheme"
where
  "scrollInfoEvent tie callback s current =
     s\<lparr>prev_pos := current,
       isShow := callback (scroll_sample tie (prev_pos s) current) (isShow s)\<rparr>"

text \<open>\<^verbatim>\<open>const fn = scrollInfoEvent(...)\<close>: the listener of the controller.\<close>

definition fn :: "direction \<Rightarrow> 'a controller_scheme \<Rightarrow> real \<Rightarrow> 'a controller_scheme" where
  "fn tie = scrollInfoEvent tie scroll_callback"

subsection \<open>Registration of the listener\<close>

text \<open>
  \<^verbatim>\<open>useEffect(() => { addEventListener('scroll', fn); return () => removeEventListener('scroll', fn) }, [])\<close>:
  the effect registers the listener once the component is mounted, its cleanup removes
  the registration when the component is unmounted. The window keeps at most one
  registration of a listener for an event type, and removing a listener that is not
  registered does nothing, so the registration of \<open>fn\<close> is a boolean. Neither call can
  fail.
\<close>

definition addEventListener :: "'a controller_scheme \<Rightarrow> 'a controller_scheme" where
  "addEventListener s = s\<lparr>listening := True\<rparr>"

definition removeEventListener :: "'a controller_scheme \<Rightarrow> 'a controller_scheme" where
  "removeEventListener s = s\<lparr>listening := False\<rparr>"

text \<open>
  The window fires a scroll event at offset \<open>y\<close>: a registered listener runs, and
  nothing happens without one. The listener is a parameter.
\<close>

definition dispatch_scroll ::
  "('a controller_scheme \<Rightarrow> real \<Rightarrow> 'a controller_scheme) \<Rightarrow> 'a controller_scheme \<Rightarrow> real
     \<Rightarrow> 'a controller_scheme"
where
  "dispatch_scroll listener s y = (if listening s then listener s y else s)"

text \<open>The states the listener goes through on a sequence of offsets, one per event.\<close>

fun scroll_trace :: "direction \<Rightarrow> 'a controller_scheme \<Rightarrow> real list \<Rightarrow> 'a controller_scheme list" where
  "scroll_trace tie s [] = []"
| "scroll_trace tie s (y # ys) = fn tie s y # scroll_trace tie (fn tie s y) ys"

text \<open>
  A sequence of offsets is jitter when every offset is at most 14 away from the one
  before it, the first from the position \<open>p\<close> held before the sequence.
\<close>

fun jitter :: "real \<Rightarrow> real list \<Rightarrow> bool" where
  "jitter p [] = True"
| "jitter p (y # ys) = (\<bar>y - p\<bar> \<le> 14 \<and> jitter y ys)"

subsection \<open>AppFrame\<close>

text \<open>
  \<^verbatim>\<open>
  const isShowHeader = useScrollShower(true)
  <TheHeader className={`transform md:transform-none md:translate-y-0 transition-transform duration-300 delay-500 ${
      isShowHeader ? '' : '-translate-y-full' }`} />
  <BottomNavigation className={`transform md:hidden md:transform-none md:translate-y-0 transition-transform duration-300 delay-100 ${
      isShowHeader ? '' : 'translate-y-full' }`} />
  \<close>
  A render reads the flag of the controller and yields the two class names.
\<close>

record app_frame =
  header_className :: string
  bottom_navigation_className :: string

definition AppFrame_controller :: "real \<Rightarrow> controller" where
  "AppFrame_controller p0 = useScrollShower (Some True) p0"

definition AppFrame :: "'a controller_scheme \<Rightarrow> app_frame" where
  "AppFrame s =
     (let isShowHeader = isShow s in
      \<lparr>header_className =
         ''transform md:transform-none md:translate-y-0 transition-transform duration-300 delay-500 ''
           @ (if isShowHeader then '''' else ''-translate-y-full''),
       bottom_navigation_className =
         ''transform md:hidden md:transform-none md:translate-y-0 transition-transform duration-300 delay-100 ''
           @ (if isShowHeader then '''' else ''translate-y-full'')\<rparr>)"

text \<open>
  The classes an element carries are the tokens of its class name between spaces.
  \<open>class_tokens_from acc cs\<close> reads \<open>cs\<close> with the token \<open>acc\<close> begun.
\<close>

fun class_tokens_from :: "string \<Rightarrow> string \<Rightarrow> string list" where
  "class_tokens_from acc [] = (if acc = [] then [] else [acc])"
| "class_tokens_from acc (c # cs) =
     (if c = CHR '' ''
      then (if acc = [] then [] else [acc]) @ class_tokens_from [] cs
      else class_tokens_from (acc @ [c]) cs)"

definition class_tokens :: "string \<Rightarrow> string list" where
  "class_tokens cs = class_tokens_from [] cs"

definition has_class :: "string \<Rightarrow> string \<Rightarrow> bool" where
  "has_class className c = (c \<in> set (class_tokens className))"

section \<open>RelatedArticle\<close>

text \<open>
  \<^verbatim>\<open>
  type DataType = 'RECENT'
  type State = { type: DataType }
  type Action = { type: 'recent' }

  const initialState: State = { type: 'RECENT' }
  const reducer: Reducer<State, Action> = (state, action) => {
    return { type: 'RECENT' }
  }

  const RelatedArticle = ({ articles }) => {
    const [state] = useReducer(reducer, initialState)
    const data = useMemo(() => {
      switch (state.type) {
        case 'RECENT': { return articles }
      }
    }, [state.type])
    return (... <ul> {data.map((articleHeadlineProps) => <li key=...> ... </li>)} </ul>)
  }
  \<close>
\<close>

datatype DataType = RECENT

record State =
  type :: DataType

datatype Action = recent

definition initialState :: State where
  "initialState = \<lparr>type = RECENT\<rparr>"

definition reducer :: "State \<Rightarrow> Action \<Rightarrow> State" where
  "reducer state action = \<lparr>type = RECENT\<rparr>"

text \<open>
  React's \<^verbatim>\<open>useMemo(compute, deps)\<close> keeps one cell per call site and component
  instance: the dependencies and the value of the last computation. A render whose
  dependencies equal the stored ones returns the stored value without computing; any
  other render computes and stores. The function returns the value and the new cell.
\<close>

definition useMemo :: "('d list \<times> 'v) option \<Rightarrow> 'v \<Rightarrow> 'd list \<Rightarrow> 'v \<times> ('d list \<times> 'v) option" where
  "useMemo cell compute deps =
     (case cell of
        None \<Rightarrow> (compute, Some (deps, compute))
      | Some (stored_deps, stored) \<Rightarrow>
          if stored_deps = deps then (stored, cell) else (compute, Some (deps, compute)))"

text \<open>
  One mounted instance of the component: the reducer's state and the memo cell. The
  component never takes the dispatch function out of \<^verbatim>\<open>useReducer\<close>, so a render
  leaves the reducer's state as it is.
\<close>

record 'a related_article =
  state :: State
  memo :: "(DataType list \<times> 'a list) option"

definition RelatedArticle_mount :: "'a related_article" where
  "RelatedArticle_mount = \<lparr>state = initialState, memo = None\<rparr>"

text \<open>
  A render with the property \<open>articles\<close>: the list the \<^verbatim>\<open><ul>\<close> shows, one item per
  element of \<open>data\<close> in order, and the instance after the render.
\<close>

definition RelatedArticle :: "'a related_article \<Rightarrow> 'a list \<Rightarrow> 'a list \<times> 'a related_article" where
  "RelatedArticle inst articles =
     (let (data, cell) =
            useMemo (memo inst) (case type (state inst) of RECENT \<Rightarrow> articles) [type (state inst)]
      in (data, inst\<lparr>memo := cell\<rparr>))"

section \<open>Theorems\<close>

subsection \<open>The callback\<close>

lemma scroll_callback_up: "14 < diff info \<Longrightarrow> direction info = Up \<Longrightarrow> scroll_callback info b = True"
  by (simp add: scroll_callback_def)

lemma scroll_callback_down: "14 < diff info \<Longrightarrow> direction info = Down \<Longrightarrow> scroll_callback info b = False"
  by (simp add: scroll_callback_def)

lemma scroll_callback_ignored: "diff info \<le> 14 \<Longrightarrow> scroll_callback info b = b"
  by (simp add: scroll_callback_def)

subsection \<open>The listener\<close>

lemma fn_prev_pos:
  fixes s :: "'a controller_scheme"
  shows "prev_pos (fn tie s y) = y"
  by (simp add: fn_def scrollInfoEvent_def)

lemma fn_isShow:
  fixes s :: "'a controller_scheme"
  shows "isShow (fn tie s y) = scroll_callback (scroll_sample tie (prev_pos s) y) (isShow s)"
  by (simp add: fn_def scrollInfoEvent_def)

lemma scroll_sample_diff: "diff (scroll_sample tie previous current) = \<bar>current - previous\<bar>"
  by (simp add: scroll_sample_def)

lemma scroll_sample_decreasing:
  "current < previous \<Longrightarrow> direction (scroll_sample tie previous current) = Up"
  by (simp add: scroll_sample_def scroll_direction_def)

lemma scroll_sample_increasing:
  "previous < current \<Longrightarrow> direction (scroll_sample tie previous current) = Down"
  by (simp add: scroll_sample_def scroll_direction_def)

lemma fn_jitter_flag:
  fixes s :: "'a controller_scheme"
  shows "\<bar>y - prev_pos s\<bar> \<le> 14 \<Longrightarrow> isShow (fn tie s y) = isShow s"
  by (simp add: fn_isShow scroll_sample_diff scroll_callback_ignored)

text \<open>
  Claim C1. A scroll event whose magnitude exceeds 14 sets the visibility flag to true
  when its direction is toward the top (the position decreases, direction \<^verbatim>\<open>up\<close>) and to
  false when it is away from the top (the position increases, direction \<^verbatim>\<open>down\<close>). The
  first conjunct is the callback on any payload, the second the listener on offsets. The
  witness holds the two runs the specification names: from 100 to 80 the flag becomes
  true, from 80 to 110 it becomes false.
\<close>

theorem direction_rule:
  fixes s :: "'a controller_scheme"
  shows "(14 < diff info \<longrightarrow>
            (direction info = Up \<longrightarrow> scroll_callback info b = True) \<and>
            (direction info = Down \<longrightarrow> scroll_callback info b = False)) \<and>
         (14 < \<bar>y - prev_pos s\<bar> \<longrightarrow>
            (y < prev_pos s \<longrightarrow> isShow (fn tie s y) = True) \<and>
            (prev_pos s < y \<longrightarrow> isShow (fn tie s y) = False))"
proof -
  have payload: "14 < diff info \<longrightarrow>
            (direction info = Up \<longrightarrow> scroll_callback info b = True) \<and>
            (direction info = Down \<longrightarrow> scroll_callback info b = False)"
    by (simp add: scroll_callback_up scroll_callback_down)
  have offsets: "14 < \<bar>y - prev_pos s\<bar> \<longrightarrow>
            (y < prev_pos s \<longrightarrow> isShow (fn tie s y) = True) \<and>
            (prev_pos s < y \<longrightarrow> isShow (fn tie s y) = False)"
    by (simp add: fn_isShow scroll_callback_up scroll_callback_down
          scroll_sample_diff scroll_sample_decreasing scroll_sample_increasing)
  from payload offsets show ?thesis by (rule conjI)
qed

theorem direction_rule_witness:
  "(14::real) < 20 \<and> scroll_callback \<lparr>direction = Up, diff = 20\<rparr> False = True \<and>
   (14::real) < 30 \<and> scroll_callback \<lparr>direction = Down, diff = 30\<rparr> True = False \<and>
   (14::real) < \<bar>80 - 100\<bar> \<and> (80::real) < 100 \<and>
   isShow (fn Down \<lparr>prev_pos = 100, isShow = False, listening = True\<rparr> 80) = True \<and>
   (14::real) < \<bar>110 - 80\<bar> \<and> (80::real) < 110 \<and>
   isShow (fn Up \<lparr>prev_pos = 80, isShow = True, listening = True\<rparr> 110) = False"
  using direction_rule [of "\<lparr>direction = Up, diff = 20\<rparr>" False 80
          "\<lparr>prev_pos = 100, isShow = False, listening = True\<rparr>" Down]
        direction_rule [of "\<lparr>direction = Down, diff = 30\<rparr>" True 110
          "\<lparr>prev_pos = 80, isShow = True, listening = True\<rparr>" Up]
  by simp

text \<open>
  Claim C2. On a sequence of offsets in which every magnitude, measured from the offset
  just before, is at most 14, the visibility flag never leaves its initial value: it has
  that value after every event of the sequence.
\<close>

theorem threshold_invariant:
  fixes s :: "'a controller_scheme"
  shows "jitter (prev_pos s) ys \<Longrightarrow> \<forall>t \<in> set (scroll_trace tie s ys). isShow t = isShow s"
proof (induction ys arbitrary: s)
  case Nil
  then show ?case by simp
next
  case (Cons y ys)
  from Cons.prems have near: "\<bar>y - prev_pos s\<bar> \<le> 14" and rest: "jitter y ys"
    by simp_all
  have kept: "isShow (fn tie s y) = isShow s"
    using near by (rule fn_jitter_flag)
  have "jitter (prev_pos (fn tie s y)) ys"
    using rest by (simp add: fn_prev_pos)
  then have "\<forall>t \<in> set (scroll_trace tie (fn tie s y) ys). isShow t = isShow (fn tie s y)"
    by (rule Cons.IH)
  with kept show ?case by simp
qed

theorem threshold_invariant_witness:
  "jitter 100 [105, 108] \<and>
   map isShow (scroll_trace Down \<lparr>prev_pos = 100, isShow = True, listening = True\<rparr> [105, 108])
     = [True, True]"
  using threshold_invariant
          [of "\<lparr>prev_pos = 100, isShow = True, listening = True\<rparr>" "[105, 108]" Down]
  by simp

text \<open>
  Claim C3. Every scroll event, an ignored one too, stores the current offset as the
  previous position, so the next magnitude is measured from it: after 105 from 100
  (magnitude 5, ignored) the offset 95 has magnitude 10, measured from 105, and is
  ignored as well.
\<close>

theorem previous_position_always_updates:
  fixes s :: "'a controller_scheme"
  shows "prev_pos (fn tie s y) = y \<and>
     (let s1 = fn tie \<lparr>prev_pos = 100, isShow = b, listening = True\<rparr> 105 in
        isShow s1 = b \<and> prev_pos s1 = 105 \<and>
        diff (scroll_sample tie (prev_pos s1) 95) = 10 \<and>
        isShow (fn tie s1 95) = b)"
  by (simp add: Let_def fn_prev_pos fn_jitter_flag scroll_sample_diff)

text \<open>
  Claim C4, as stated: a scroll event whose magnitude is exactly 14 triggers a flag
  update. It does not: the guard is \<^verbatim>\<open>diff > 14\<close>, so at magnitude 14 an upward event
  leaves a false flag false and a downward event leaves a true flag true.
\<close>

theorem threshold_counterexample:
  "scroll_callback \<lparr>direction = Up, diff = 14\<rparr> False = False \<and>
   scroll_callback \<lparr>direction = Down, diff = 14\<rparr> True = True"
  by (simp add: scroll_callback_def)

text \<open>
  Claim C4, amended. The threshold 14 is the largest magnitude that is ignored: for every
  prior flag value, a scroll event whose magnitude is greater than 14 triggers a flag
  update (true on direction toward the top, false on direction away from the top), and
  an event whose magnitude is at most 14, exactly 14 included, leaves the flag as it
  was.
\<close>

theorem threshold_strict:
  "(14 < diff info \<longrightarrow>
      (direction info = Up \<longrightarrow> scroll_callback info b = True) \<and>
      (direction info = Down \<longrightarrow> scroll_callback info b = False)) \<and>
   (diff info \<le> 14 \<longrightarrow> scroll_callback info b = b)"
  by (simp add: scroll_callback_up scroll_callback_down scroll_callback_ignored)

theorem threshold_strict_witness:
  "(14::real) < 15 \<and> scroll_callback \<lparr>direction = Up, diff = 15\<rparr> False = True \<and>
   scroll_callback \<lparr>direction = Down, diff = 15\<rparr> True = False \<and>
   (14::real) \<le> 14 \<and> scroll_callback \<lparr>direction = Up, diff = 14\<rparr> False = False"
  using threshold_strict [of "\<lparr>direction = Up, diff = 15\<rparr>" False]
        threshold_strict [of "\<lparr>direction = Down, diff = 15\<rparr>" True]
        threshold_strict [of "\<lparr>direction = Up, diff = 14\<rparr>" False]
  by simp

text \<open>
  Claim C9. For a scroll event whose magnitude exceeds 14 the resulting flag depends on
  the event alone: run from a true flag and from a false flag, the update rule ends with
  the same flag.
\<close>

theorem flag_independent_of_prior:
  "14 < diff info \<Longrightarrow> scroll_callback info True = scroll_callback info False"
  by (cases "direction info") (simp_all add: scroll_callback_up scroll_callback_down)

theorem flag_independent_of_prior_witness:
  "(14::real) < 20 \<and>
   scroll_callback \<lparr>direction = Up, diff = 20\<rparr> True
     = scroll_callback \<lparr>direction = Up, diff = 20\<rparr> False"
  using flag_independent_of_prior [of "\<lparr>direction = Up, diff = 20\<rparr>"]
  by simp

subsection \<open>Mounting and unmounting\<close>

text \<open>
  Claim C5. At mount the visibility flag is the initial value the caller supplies, and it
  is \<open>False\<close> when the caller supplies none.
\<close>

theorem initial_flag:
  "isShow (useScrollShower (Some b) p0) = b \<and> isShow (useScrollShower None p0) = False"
  by (simp add: useScrollShower_def nullish_false_def)

lemma dispatch_scroll_attached:
  fixes s :: "'a controller_scheme"
  shows "dispatch_scroll listener (addEventListener s) y = listener (addEventListener s) y"
  by (simp add: dispatch_scroll_def addEventListener_def)

lemma dispatch_scroll_detached:
  fixes s :: "'a controller_scheme"
  shows "\<not> listening s \<Longrightarrow> foldl (dispatch_scroll listener) s ys = s"
  by (induction ys) (simp_all add: dispatch_scroll_def)

text \<open>
  Claim C6. Once the listener is removed, no scroll event the window goes on firing
  changes the visibility flag (the whole controller stays as it is, whatever the listener
  does when it runs); removing a listener that is already removed, or that was never
  registered, changes nothing and cannot fail.
\<close>

theorem detached_controller_is_inert:
  fixes s :: "'a controller_scheme"
  shows "foldl (dispatch_scroll listener) (removeEventListener s) ys = removeEventListener s \<and>
     isShow (foldl (dispatch_scroll listener) (removeEventListener s) ys) = isShow s \<and>
     removeEventListener (removeEventListener s) = removeEventListener s \<and>
     removeEventListener (useScrollShower init p0) = useScrollShower init p0"
proof -
  have off: "\<not> listening (removeEventListener s)"
    by (simp add: removeEventListener_def)
  have inert: "foldl (dispatch_scroll listener) (removeEventListener s) ys = removeEventListener s"
    using off by (rule dispatch_scroll_detached)
  have flag: "isShow (removeEventListener s) = isShow s"
    by (simp add: removeEventListener_def)
  have twice: "removeEventListener (removeEventListener s) = removeEventListener s"
    by (simp add: removeEventListener_def)
  have never: "removeEventListener (useScrollShower init p0) = useScrollShower init p0"
    by (simp add: removeEventListener_def useScrollShower_def)
  from inert flag twice never show ?thesis by simp
qed

subsection \<open>AppFrame\<close>

lemma AppFrame_first_paint: "isShow (AppFrame_controller p0) = True"
  by (simp add: AppFrame_controller_def useScrollShower_def nullish_false_def)

lemma header_tokens:
  "class_tokens (header_className (AppFrame s)) =
     [''transform'', ''md:transform-none'', ''md:translate-y-0'', ''transition-transform'',
      ''duration-300'', ''delay-500''] @ (if isShow s then [] else [''-translate-y-full''])"
  by (simp add: AppFrame_def class_tokens_def)

lemma bottom_navigation_tokens:
  "class_tokens (bottom_navigation_className (AppFrame s)) =
     [''transform'', ''md:hidden'', ''md:transform-none'', ''md:translate-y-0'',
      ''transition-transform'', ''duration-300'', ''delay-100'']
       @ (if isShow s then [] else [''translate-y-full''])"
  by (simp add: AppFrame_def class_tokens_def)

text \<open>
  Claim C8. The header and the bottom navigation follow one flag: in every render of
  AppFrame the header carries the class \<^verbatim>\<open>-translate-y-full\<close> exactly when the flag is
  false, the bottom navigation carries \<^verbatim>\<open>translate-y-full\<close> exactly when the flag is
  false, and so the one is hidden if and only if the other is.
\<close>

theorem chrome_shares_flag:
  "has_class (header_className (AppFrame s)) ''-translate-y-full'' = (\<not> isShow s) \<and>
   has_class (bottom_navigation_className (AppFrame s)) ''translate-y-full'' = (\<not> isShow s) \<and>
   has_class (header_className (AppFrame s)) ''-translate-y-full''
     = has_class (bottom_navigation_className (AppFrame s)) ''translate-y-full''"
  by (simp add: has_class_def header_tokens bottom_navigation_tokens)

subsection \<open>RelatedArticle\<close>

lemma reducer_constant: "reducer st a = \<lparr>type = RECENT\<rparr>"
  by (simp add: reducer_def)

lemma RelatedArticle_state: "state (snd (RelatedArticle inst articles)) = state inst"
  by (simp add: RelatedArticle_def useMemo_def split: option.splits prod.splits)

lemma RelatedArticle_first_render: "fst (RelatedArticle RelatedArticle_mount articles) = articles"
  by (simp add: RelatedArticle_def RelatedArticle_mount_def useMemo_def split: DataType.splits)

text \<open>
  Claim C10. The reducer returns \<^verbatim>\<open>{type: 'RECENT'}\<close> whatever the state and the action,
  so the state is always RECENT, and the rendered list is always exactly the
  \<^verbatim>\<open>articles\<close> property, in its order. The reducer is constant (\<open>reducer_constant\<close>) and
  the first render shows the property (\<open>RelatedArticle_first_render\<close>), but the memo
  depends on \<^verbatim>\<open>[state.type]\<close> alone, which never changes: an instance mounted with one
  list and rendered again with another still shows the first list.
\<close>

theorem RelatedArticle_stale_list:
  "fst (RelatedArticle (snd (RelatedArticle RelatedArticle_mount [''/posts/a''])) [''/posts/b''])
     = [''/posts/a''] \<and>
   fst (RelatedArticle (snd (RelatedArticle RelatedArticle_mount [''/posts/a''])) [''/posts/b''])
     \<noteq> [''/posts/b'']"
  by (simp add: RelatedArticle_def RelatedArticle_mount_def useMemo_def initialState_def)

end
